theory Spec2Isabelle
  imports Main
begin

section \<open>The world usb\_writer.py runs in\<close>

text \<open>
  The script is a sequence of reads of the environment (\<open>platform.system()\<close>,
  \<open>os.geteuid()\<close>, \<open>shutil.which\<close>, \<open>Path.exists\<close>, \<open>input\<close>) and of subprocess
  calls. The environment is a record the functions read; what a run does is the list of
  its effects, in order, together with how it ended.
\<close>

text \<open>What starting a subprocess gives: an exit code, or an \<open>OSError\<close> when the program
  cannot be started (\<open>FileNotFoundError\<close>, \<open>PermissionError\<close>).\<close>

datatype proc = Exit int | OSErr

record env =
  system :: string
    \<comment> \<open>\<open>platform.system()\<close>\<close>
  geteuid :: nat
    \<comment> \<open>\<open>os.geteuid()\<close>\<close>
  is_user_an_admin :: "int option"
    \<comment> \<open>\<open>ctypes.windll.shell32.IsUserAnAdmin()\<close>; \<open>None\<close> when the import or the call raises\<close>
  which :: "string \<Rightarrow> bool"
    \<comment> \<open>whether \<open>shutil.which(name)\<close> is a path (truthy) rather than \<open>None\<close>\<close>
  path_exists :: "string \<Rightarrow> bool"
    \<comment> \<open>\<open>Path(p).exists()\<close>\<close>
  run :: "string list \<Rightarrow> proc"
    \<comment> \<open>what running the argument vector gives\<close>
  stdout_of :: "string list \<Rightarrow> string"
    \<comment> \<open>the standard output \<open>check_output\<close> captures\<close>
  answer :: "string option"
    \<comment> \<open>the line \<open>input()\<close> reads; \<open>None\<close> at end of input (\<open>EOFError\<close>)\<close>
  open_write :: "string \<Rightarrow> bool"
    \<comment> \<open>whether \<open>open(p, "w")\<close> and the write succeed\<close>

text \<open>The effects a run leaves, in order.\<close>

datatype event =
    Print string
    \<comment> \<open>\<open>print(s)\<close>\<close>
  | PrintErr string proc
    \<comment> \<open>\<open>print(msg, e)\<close>, \<open>e\<close> the exception of a failed subprocess\<close>
  | Exec "string list"
    \<comment> \<open>\<open>subprocess\<close> is asked to start this argument vector (also when it cannot)\<close>
  | Input string
    \<comment> \<open>\<open>input(prompt)\<close>\<close>
  | WriteFile string string
    \<comment> \<open>\<open>open(path, "w")\<close> and \<open>f.write(text)\<close>, done\<close>

text \<open>How the process is ended other than by returning from \<open>main\<close>.\<close>

datatype exit =
    SysExitMsg string
    \<comment> \<open>\<open>sys.exit(msg)\<close>, \<open>raise SystemExit(msg)\<close>: the message on stderr, status 1\<close>
  | SysExitCode int
    \<comment> \<open>\<open>sys.exit(n)\<close>\<close>
  | ParserError string
    \<comment> \<open>\<open>parser.error(msg)\<close> and argparse's own rejections: status 2\<close>
  | Uncaught string
    \<comment> \<open>an exception no handler catches: traceback, status 1\<close>

text \<open>Python values a function of the script can return. None of them has a
  \<open>return\<close> with a value, so each returns \<open>None\<close>.\<close>

datatype pyval = PyNone | PyInt int

datatype outcome = Returned pyval | Raised exit

type_synonym res = "event list \<times> outcome"

definition ok :: res where
  "ok = ([], Returned PyNone)"

definition emit :: "event \<Rightarrow> res" where
  "emit e = ([e], Returned PyNone)"

definition raise :: "exit \<Rightarrow> res" where
  "raise x = ([], Raised x)"

text \<open>Statement sequencing: the second statement runs only if the first returned.\<close>

fun andthen :: "res \<Rightarrow> res \<Rightarrow> res" where
  "andthen (tr, Returned v) r = (tr @ fst r, snd r)"
| "andthen (tr, Raised x) r = (tr, Raised x)"

fun exit_status :: "exit \<Rightarrow> int" where
  "exit_status (SysExitMsg m) = 1"
| "exit_status (SysExitCode n) = n mod 256"
| "exit_status (ParserError m) = 2"
| "exit_status (Uncaught n) = 1"

text \<open>The exit status of the process whose \<open>main()\<close> ended this way.\<close>

fun status :: "res \<Rightarrow> int" where
  "status (tr, Returned v) = 0"
| "status (tr, Raised x) = exit_status x"

text \<open>Truthiness of an optional string argument: \<open>None\<close> and \<open>""\<close> are false.\<close>

fun truthy :: "string option \<Rightarrow> bool" where
  "truthy None = False"
| "truthy (Some s) = (s \<noteq> [])"

text \<open>\<open>str()\<close> of an optional string, as an f-string formats it.\<close>

fun fmt :: "string option \<Rightarrow> string" where
  "fmt None = ''None''"
| "fmt (Some s) = s"

text \<open>\<open>" ".join(xs)\<close>\<close>

fun join_sp :: "string list \<Rightarrow> string" where
  "join_sp [] = []"
| "join_sp [x] = x"
| "join_sp (x # y # ys) = x @ '' '' @ join_sp (y # ys)"

definition nl :: string where
  "nl = [CHR 0x0A]"

section \<open>check\_root\<close>

definition check_root :: "env \<Rightarrow> res" where
  "check_root E =
    (if system E = ''Linux'' \<or> system E = ''Darwin'' then
       (if geteuid E \<noteq> 0
        then raise (SysExitMsg ''This script must be run as root (sudo). Exiting.'')
        else ok)
     else if system E = ''Windows'' then
       (case is_user_an_admin E of
          None \<Rightarrow> ok
        | Some a \<Rightarrow>
            if a = 0
            then raise (SysExitMsg
              ''Please run this script from an elevated Administrator PowerShell. Exiting.'')
            else ok)
     else ok)"

section \<open>Disk listing\<close>

text \<open>\<open>subprocess.check_output\<close> under \<open>except Exception\<close>: the output is printed when
  the command ran and exited with 0.\<close>

definition list_disks_unix :: "env \<Rightarrow> res" where
  "list_disks_unix E =
    (let c1 = [''lsblk'', ''-o'', ''NAME,SIZE,TYPE,MOUNTPOINT,MODEL,TRAN''];
         c2 = [''cat'', ''/proc/partitions'']
     in if run E c1 = Exit 0 then ([Exec c1, Print (stdout_of E c1)], Returned PyNone)
        else if run E c2 = Exit 0
          then ([Exec c1, Exec c2, Print (stdout_of E c2)], Returned PyNone)
          else ([Exec c1, Exec c2, PrintErr ''Failed to list disks:'' (run E c2)],
                Returned PyNone))"

definition list_disks_mac :: "env \<Rightarrow> res" where
  "list_disks_mac E =
    (let c = [''diskutil'', ''list'']
     in if run E c = Exit 0 then ([Exec c, Print (stdout_of E c)], Returned PyNone)
        else ([Exec c, PrintErr ''Failed to list disks with diskutil:'' (run E c)],
              Returned PyNone))"

definition list_disks_windows :: "env \<Rightarrow> res" where
  "list_disks_windows E =
    (let cmd = [''powershell'', ''-Command'', ''Get-Disk | Format-Table -AutoSize'']
     in if run E cmd = Exit 0 then ([Exec cmd, Print (stdout_of E cmd)], Returned PyNone)
        else ([Exec cmd, PrintErr ''Failed to list disks via PowerShell:'' (run E cmd)],
              Returned PyNone))"

definition list_disks :: "env \<Rightarrow> res" where
  "list_disks E =
    andthen (emit (Print (''Detected OS: '' @ system E @ nl)))
      (if system E = ''Linux'' then list_disks_unix E
       else if system E = ''Darwin'' then list_disks_mac E
       else if system E = ''Windows'' then list_disks_windows E
       else emit (Print ''Unsupported OS for automatic disk listing''))"

section \<open>Partition table creation\<close>

text \<open>\<open>try: subprocess.check_call(cmd)\<close> with
  \<open>except subprocess.CalledProcessError as e: print(msg, e)\<close>: a non-zero exit code is
  printed and the function goes on; an \<open>OSError\<close> is not caught.\<close>

definition try_check_call :: "env \<Rightarrow> string list \<Rightarrow> string \<Rightarrow> res" where
  "try_check_call E cmd msg =
    (case run E cmd of
       Exit n \<Rightarrow> if n = 0 then emit (Exec cmd)
                 else ([Exec cmd, PrintErr msg (Exit n)], Returned PyNone)
     | OSErr \<Rightarrow> ([Exec cmd], Raised (Uncaught ''OSError'')))"

definition create_partition_table_unix :: "env \<Rightarrow> string \<Rightarrow> string \<Rightarrow> res" where
  "create_partition_table_unix E device table =
    (if which E ''sgdisk'' then
       (let cmd = (if table = ''gpt'' then [''sgdisk'', ''--zap-all'', device]
                   else [''sgdisk'', ''--mbrtogpt=1'', device])
        in try_check_call E cmd ''sgdisk failed:'')
     else if which E ''parted'' then
       try_check_call E [''parted'', ''-s'', device, ''mklabel'', table] ''parted failed:''
     else raise (SysExitMsg
       ''Neither sgdisk nor parted found. Install parted (or gdisk) and retry.''))"

section \<open>Partition creation and formatting\<close>

text \<open>\<open>subprocess.call\<close> ignores the exit code; only a program that cannot be started
  raises.\<close>

definition call :: "env \<Rightarrow> string list \<Rightarrow> res" where
  "call E cmd =
    (case run E cmd of
       Exit n \<Rightarrow> emit (Exec cmd)
     | OSErr \<Rightarrow> ([Exec cmd], Raised (Uncaught ''OSError'')))"

text \<open>The part of \<open>format_partition_unix\<close> after the partition path is known: the wait,
  the choice of the mkfs command, the mkfs call.\<close>

definition format_part :: "env \<Rightarrow> string \<Rightarrow> string \<Rightarrow> res" where
  "format_part E part fs_type =
    andthen (if system E \<noteq> ''Windows'' then call E [''sleep'', ''1''] else ok)
      (if fs_type = ''ext4'' \<or> fs_type = ''ext3'' \<or> fs_type = ''ext2'' then
         try_check_call E [''mkfs.'' @ fs_type, part] ''mkfs failed:''
       else if fs_type = ''vfat'' \<or> fs_type = ''fat32'' then
         try_check_call E [''mkfs.vfat'', part] ''mkfs failed:''
       else if fs_type = ''ntfs'' then
         try_check_call E [''mkfs.ntfs'', part] ''mkfs failed:''
       else raise (SysExitMsg (''Unsupported filesystem: '' @ fs_type)))"

definition format_partition_unix :: "env \<Rightarrow> string \<Rightarrow> string \<Rightarrow> res" where
  "format_partition_unix E device fs_type =
    (if \<not> which E ''parted'' then
       raise (SysExitMsg ''parted not available. Install parted and retry.'')
     else
       (let mk = [''parted'', ''-s'', device, ''mkpart'', ''primary'', fs_type, ''0%'', ''100%'']
        in case run E mk of
             OSErr \<Rightarrow> ([Exec mk], Raised (Uncaught ''OSError''))
           | Exit n \<Rightarrow>
               if n \<noteq> 0 then
                 ([Exec mk, PrintErr ''Failed to create partition:'' (Exit n)], Returned PyNone)
               else
                 andthen (emit (Exec mk))
                   (if system E = ''Linux'' then format_part E (device @ ''1'') fs_type
                    else if system E = ''Darwin'' then format_part E (device @ ''s1'') fs_type
                    else raise (SysExitMsg
                      ''Unsupported OS for formatting partitions via this script''))))"

section \<open>Raw write\<close>

definition dd_cmd :: "string \<Rightarrow> string \<Rightarrow> string list" where
  "dd_cmd device iso_path =
    [''dd'', ''if='' @ iso_path, ''of='' @ device, ''bs='' @ ''4M'', ''status=progress conv=fsync'']"

definition write_iso_unix :: "env \<Rightarrow> string \<Rightarrow> string \<Rightarrow> res" where
  "write_iso_unix E device iso_path =
    (if \<not> path_exists E iso_path then
       raise (SysExitMsg (''ISO file not found: '' @ iso_path))
     else
       andthen (emit (Print (''Running: '' @ join_sp (dd_cmd device iso_path))))
         (try_check_call E (dd_cmd device iso_path) ''dd failed:''))"

definition write_iso_windows :: "env \<Rightarrow> string \<Rightarrow> string \<Rightarrow> res" where
  "write_iso_windows E device_number iso_path =
    raise (SysExitMsg
      ''Windows raw write not implemented. Use Rufus or Win32 Disk Imager on Windows.'')"

section \<open>Confirmation\<close>

definition confirm :: "env \<Rightarrow> string \<Rightarrow> res" where
  "confirm E target =
    (let shown =
       [Print (nl @ ''!!! WARNING !!!''),
        Print (''About to erase/modify device: '' @ target),
        Print (''This action is destructive and irreversible. '' @
               ''Make sure you selected the correct device.''),
        Input ''Type the device path (or 'YES' to confirm): '']
     in case answer E of
          None \<Rightarrow> (shown, Raised (Uncaught ''EOFError''))
        | Some ans \<Rightarrow>
            if ans \<noteq> target \<and> ans \<noteq> ''YES''
            then (shown @ [Print ''Confirmation failed. Aborting.''], Raised (SysExitCode 1))
            else (shown, Returned PyNone))"

section \<open>The command line\<close>

text \<open>The namespace \<open>parser.parse_args()\<close> returns. The field for \<open>--list\<close> is
  \<open>list_mode\<close>, the one for \<open>--format\<close> is \<open>format\<close>.\<close>

record args =
  list_mode :: bool
  target :: "string option"
  iso :: "string option"
  parttable :: "string option"
  format :: "string option"
  yes :: bool

text \<open>The diskpart script of the Windows branch.\<close>

definition diskpart_script :: "string \<Rightarrow> args \<Rightarrow> string" where
  "diskpart_script tgt A =
    ''select disk '' @ tgt @ nl @ ''clean'' @ nl @
    ''convert '' @ fmt (parttable A) @ nl @
    ''create partition primary'' @ nl @
    ''format fs='' @ fmt (format A) @ '' quick'' @ nl @
    ''assign'' @ nl @ ''exit'' @ nl"

definition windows_partition :: "env \<Rightarrow> string \<Rightarrow> args \<Rightarrow> res" where
  "windows_partition E tgt A =
    (let ps = diskpart_script tgt A;
         pfile = (if system E \<noteq> ''Windows'' then ''/tmp/diskpart_script.txt''
                  else ''diskpart_script.txt'');
         cmd = [''diskpart'', ''/s'', pfile];
         shown = [Print ''Windows partitioning/formatting path'',
                  Print ''Running diskpart script (requires admin)'']
     in if \<not> open_write E pfile then (shown, Raised (Uncaught ''OSError''))
        else if run E cmd = Exit 0 then
          (shown @ [WriteFile pfile ps, Exec cmd], Returned PyNone)
        else
          (shown @ [WriteFile pfile ps, Exec cmd, PrintErr ''diskpart failed:'' (run E cmd)],
           Returned PyNone))"

text \<open>The block under \<open>if args.parttable:\<close>.\<close>

definition parttable_step :: "env \<Rightarrow> string \<Rightarrow> args \<Rightarrow> res" where
  "parttable_step E tgt A =
    (if truthy (parttable A) then
       (if system E = ''Linux'' \<or> system E = ''Darwin'' then
          andthen (emit (Print (''Creating partition table '' @ fmt (parttable A) @
                                '' on '' @ tgt)))
         (andthen (create_partition_table_unix E tgt (fmt (parttable A)))
            (if truthy (format A) then format_partition_unix E tgt (fmt (format A)) else ok))
        else if system E = ''Windows'' then windows_partition E tgt A
        else ok)
     else ok)"

text \<open>The block under \<open>if args.iso:\<close>.\<close>

definition iso_step :: "env \<Rightarrow> string \<Rightarrow> args \<Rightarrow> res" where
  "iso_step E tgt A =
    (if truthy (iso A) then
       (if system E = ''Linux'' \<or> system E = ''Darwin'' then write_iso_unix E tgt (fmt (iso A))
        else if system E = ''Windows'' then write_iso_windows E tgt (fmt (iso A))
        else ok)
     else ok)"

definition done_msg :: string where
  "done_msg = ''Done. Remember to safely eject the device.''"

text \<open>\<open>main\<close>, from the parsed arguments on. The parser has \<open>choices=["gpt", "mbr"]\<close>
  for \<open>--parttable\<close> and rejects any other value before \<open>main\<close> does anything.\<close>

definition main :: "env \<Rightarrow> args \<Rightarrow> res" where
  "main E A =
    (if parttable A \<noteq> None \<and> parttable A \<noteq> Some ''gpt'' \<and> parttable A \<noteq> Some ''mbr'' then
       raise (ParserError ''argument --parttable: invalid choice'')
     else if list_mode A then list_disks E
     else if \<not> truthy (target A) then
       raise (ParserError ''--target is required unless --list is used'')
     else
       andthen (check_root E)
      (andthen (if \<not> yes A then confirm E (fmt (target A)) else ok)
      (andthen (parttable_step E (fmt (target A)) A)
      (andthen (iso_step E (fmt (target A)) A)
               (emit (Print done_msg))))))"

section \<open>Reading a trace\<close>

text \<open>The programs a run started, in order.\<close>

fun invoked :: "event list \<Rightarrow> string list" where
  "invoked [] = []"
| "invoked (Exec (p # as) # tr) = p # invoked tr"
| "invoked (e # tr) = invoked tr"

text \<open>The argument vectors a run started, in order.\<close>

fun execs :: "event list \<Rightarrow> string list list" where
  "execs [] = []"
| "execs (Exec c # tr) = c # execs tr"
| "execs (e # tr) = execs tr"

section \<open>Concrete runs\<close>

text \<open>A Linux machine, the script run as root: only \<open>parted\<close> is installed,
  \<open>linux.iso\<close> exists, every command exits with 0, the operator answers \<open>YES\<close>.\<close>

definition linux_env :: env where
  "linux_env = \<lparr> system = ''Linux'', geteuid = 0, is_user_an_admin = None,
      which = (\<lambda>n. n = ''parted''), path_exists = (\<lambda>p. p = ''linux.iso''),
      run = (\<lambda>c. Exit 0), stdout_of = (\<lambda>c. []), answer = Some ''YES'',
      open_write = (\<lambda>p. True) \<rparr>"

definition full_args :: args where
  "full_args = \<lparr> list_mode = False, target = Some ''/dev/sdb'', iso = Some ''linux.iso'',
      parttable = Some ''gpt'', format = Some ''ext4'', yes = True \<rparr>"



definition declining_env :: env where
  "declining_env = linux_env\<lparr>answer := Some ''no''\<rparr>"

definition ask_args :: args where
  "ask_args = full_args\<lparr>yes := False\<rparr>"

definition sgdisk_only_env :: env where
  "sgdisk_only_env = linux_env\<lparr>which := (\<lambda>n. n = ''sgdisk'')\<rparr>"

definition windows_env :: env where
  "windows_env = linux_env\<lparr>system := ''Windows'', is_user_an_admin := Some 1\<rparr>"

definition windows_args :: args where
  "windows_args = \<lparr> list_mode = False, target = Some ''1'', iso = None,
      parttable = Some ''gpt'', format = None, yes = True \<rparr>"

definition no_admin_check_env :: env where
  "no_admin_check_env = linux_env\<lparr>system := ''Windows''\<rparr>"

definition user_env :: env where
  "user_env = linux_env\<lparr>geteuid := 1000\<rparr>"

definition format_only_args :: args where
  "format_only_args = \<lparr> list_mode = False, target = Some ''/dev/sdb'',
      iso = None, parttable = None, format = Some ''ext4'', yes = True \<rparr>"


section \<open>Sequencing and traces\<close>

lemmas step_defs =
  main_def check_root_def confirm_def parttable_step_def iso_step_def
  create_partition_table_unix_def format_partition_unix_def format_part_def
  write_iso_unix_def write_iso_windows_def windows_partition_def diskpart_script_def
  try_check_call_def call_def dd_cmd_def ok_def emit_def raise_def nl_def done_msg_def

lemma andthen_eq:
  "andthen a b = (case snd a of Returned v \<Rightarrow> (fst a @ fst b, snd b) | Raised x \<Rightarrow> a)"
  by (cases a; cases "snd a") auto

lemma andthen_ok [simp]: "andthen ok r = r"
  by (simp add: ok_def)

lemma andthen_raise [simp]: "andthen (raise x) r = raise x"
  by (simp add: raise_def)

lemma andthen_emit [simp]: "andthen (emit e) r = (e # fst r, snd r)"
  by (simp add: emit_def)

lemma andthen_raised: "snd a = Raised x \<Longrightarrow> andthen a b = a"
  by (cases a) auto

lemma andthen_returned: "snd a = Returned v \<Longrightarrow> andthen a b = (fst a @ fst b, snd b)"
  by (cases a) auto


lemma invoked_append [simp]: "invoked (xs @ ys) = invoked xs @ invoked ys"
  by (induction xs rule: invoked.induct) auto

lemma execs_append [simp]: "execs (xs @ ys) = execs xs @ execs ys"
  by (induction xs rule: execs.induct) auto

lemma invoked_andthen:
  "set (invoked (fst (andthen a b))) \<subseteq> set (invoked (fst a)) \<union> set (invoked (fst b))"
  by (auto simp: andthen_eq split: outcome.splits)

lemma notin_andthen:
  "x \<notin> set (invoked (fst a)) \<Longrightarrow> x \<notin> set (invoked (fst b)) \<Longrightarrow>
   x \<notin> set (invoked (fst (andthen a b)))"
  using invoked_andthen by blast


lemma fst_check_root [simp]: "fst (check_root E) = []"
  by (simp add: check_root_def ok_def raise_def split: option.splits)

lemma invoked_confirm [simp]: "invoked (fst (confirm E t)) = []"
  by (simp add: confirm_def Let_def split: option.splits)

lemma execs_confirm [simp]: "execs (fst (confirm E t)) = []"
  by (simp add: confirm_def Let_def split: option.splits)

lemma invoked_try_check_call:
  "invoked (fst (try_check_call E (p # as) msg)) = [p]"
  by (simp add: try_check_call_def emit_def split: proc.splits)

lemma invoked_call: "invoked (fst (call E (p # as))) = [p]"
  by (simp add: call_def emit_def split: proc.splits)

lemma dd_create: "''dd'' \<notin> set (invoked (fst (create_partition_table_unix E d t)))"
  by (simp add: create_partition_table_unix_def invoked_try_check_call raise_def)

lemma dd_format_part: "''dd'' \<notin> set (invoked (fst (format_part E part fs)))"
  unfolding format_part_def
  by (rule notin_andthen) (simp_all add: invoked_call invoked_try_check_call raise_def ok_def)

lemma dd_format: "''dd'' \<notin> set (invoked (fst (format_partition_unix E d fs)))"
  by (simp add: format_partition_unix_def raise_def Let_def dd_format_part split: proc.splits)

lemma dd_windows_partition: "''dd'' \<notin> set (invoked (fst (windows_partition E t A)))"
  by (simp add: windows_partition_def Let_def)

lemma dd_parttable_step: "''dd'' \<notin> set (invoked (fst (parttable_step E t A)))"
proof -
  have "''dd'' \<notin> set (invoked (fst (andthen (create_partition_table_unix E t pt)
          (if truthy (format A) then format_partition_unix E t fs else ok))))" for pt fs
    by (rule notin_andthen) (simp_all add: dd_create dd_format ok_def)
  then show ?thesis
    by (simp add: parttable_step_def dd_windows_partition ok_def)
qed

lemma invoked_iso_step: "set (invoked (fst (iso_step E t A))) \<subseteq> {''dd''}"
  by (simp add: iso_step_def write_iso_unix_def write_iso_windows_def raise_def ok_def
      dd_cmd_def invoked_try_check_call)

lemma dd_list_disks: "''dd'' \<notin> set (invoked (fst (list_disks E)))"
  by (simp add: list_disks_def list_disks_unix_def list_disks_mac_def list_disks_windows_def
      emit_def Let_def)

lemma main_target:
  assumes "\<not> list_mode A" and "target A = Some t" and "t \<noteq> []"
    and "parttable A = None \<or> parttable A = Some ''gpt'' \<or> parttable A = Some ''mbr''"
  shows "main E A =
     andthen (check_root E)
    (andthen (if \<not> yes A then confirm E t else ok)
    (andthen (parttable_step E t A)
    (andthen (iso_step E t A) (emit (Print done_msg)))))"
  using assms by (auto simp: main_def)

lemma dd_main:
  assumes "''dd'' \<notin> set (invoked (fst (iso_step E (fmt (target A)) A)))"
  shows "''dd'' \<notin> set (invoked (fst (main E A)))"
proof -
  have "''dd'' \<notin> set (invoked (fst (
     andthen (check_root E)
    (andthen (if \<not> yes A then confirm E (fmt (target A)) else ok)
    (andthen (parttable_step E (fmt (target A)) A)
    (andthen (iso_step E (fmt (target A)) A) (emit (Print done_msg))))))))"
    by (intro notin_andthen) (simp_all add: dd_parttable_step assms ok_def emit_def)
  then show ?thesis
    using dd_list_disks [of E] by (simp add: main_def raise_def)
qed

lemma iso_step_missing:
  "\<not> path_exists E p \<Longrightarrow> iso A = Some p \<Longrightarrow> invoked (fst (iso_step E t A)) = []"
  by (simp add: iso_step_def write_iso_unix_def write_iso_windows_def raise_def ok_def)

lemma writefile_notin_confirm: "WriteFile p s \<notin> set (fst (confirm E t))"
  by (simp add: confirm_def Let_def split: option.splits)

lemma execs_andthen:
  "set (execs (fst (andthen a b))) \<subseteq> set (execs (fst a)) \<union> set (execs (fst b))"
  by (auto simp: andthen_eq split: outcome.splits)

lemma execs_call: "execs (fst (call E c)) = [c]"
  by (simp add: call_def emit_def split: proc.splits)

lemma execs_try_check_call: "execs (fst (try_check_call E c msg)) = [c]"
  by (simp add: try_check_call_def emit_def split: proc.splits)

lemma format_part_unsupported:
  assumes "fs \<noteq> ''ext4''" and "fs \<noteq> ''ext3''" and "fs \<noteq> ''ext2''"
    and "fs \<noteq> ''vfat''" and "fs \<noteq> ''fat32''" and "fs \<noteq> ''ntfs''"
  shows "format_part E part fs =
    andthen (if system E \<noteq> ''Windows'' then call E [''sleep'', ''1''] else ok)
      (raise (SysExitMsg (''Unsupported filesystem: '' @ fs)))"
  using assms by (simp add: format_part_def)

lemma execs_format_part_unsupported:
  assumes "fs \<noteq> ''ext4''" and "fs \<noteq> ''ext3''" and "fs \<noteq> ''ext2''"
    and "fs \<noteq> ''vfat''" and "fs \<noteq> ''fat32''" and "fs \<noteq> ''ntfs''"
  shows "set (execs (fst (format_part E part fs))) \<subseteq> {[''sleep'', ''1'']}"
  unfolding format_part_unsupported [OF assms]
  by (rule subset_trans [OF execs_andthen]) (simp add: execs_call ok_def raise_def)

lemma parttable_step_none: "parttable A = None \<Longrightarrow> parttable_step E t A = ok"
  by (simp add: parttable_step_def)

lemma iso_step_format: "iso_step E t (A\<lparr>format := f\<rparr>) = iso_step E t A"
  by (simp add: iso_step_def)

lemma invoked_main_no_parttable:
  assumes "parttable A = None" and "\<not> list_mode A"
  shows "set (invoked (fst (main E A))) \<subseteq> {''dd''}"
proof -
  let ?t = "fmt (target A)"
  have 1: "set (invoked (fst (andthen (iso_step E ?t A) (emit (Print done_msg))))) \<subseteq> {''dd''}"
    using invoked_andthen [of "iso_step E ?t A" "emit (Print done_msg)"] invoked_iso_step [of E ?t A]
    by (auto simp: emit_def)
  have 2: "set (invoked (fst (andthen (if \<not> yes A then confirm E ?t else ok) r))) \<subseteq> {''dd''}"
    if "set (invoked (fst r)) \<subseteq> {''dd''}" for r
    using invoked_andthen [of "if \<not> yes A then confirm E ?t else ok" r] that
    by (auto simp: ok_def split: if_splits)
  have 3: "set (invoked (fst (andthen (check_root E) r))) \<subseteq> {''dd''}"
    if "set (invoked (fst r)) \<subseteq> {''dd''}" for r
    using invoked_andthen [of "check_root E" r] that by auto
  show ?thesis
    using assms 3 [OF 2 [OF 1]]
    by (simp add: main_def parttable_step_none raise_def)
qed

























lemma try_check_call_returned: "snd (try_check_call E c m) = Returned v \<Longrightarrow> v = PyNone"
  by (auto simp: try_check_call_def emit_def split: if_splits proc.splits)

lemma call_returned: "snd (call E c) = Returned v \<Longrightarrow> v = PyNone"
  by (auto simp: call_def emit_def split: proc.splits)


lemma create_returned:
  "snd (create_partition_table_unix E d t) = Returned v \<Longrightarrow> v = PyNone"
  unfolding create_partition_table_unix_def Let_def
  by (auto simp: raise_def try_check_call_returned split: if_splits)












section \<open>The raw imager and a missing image\<close>

text \<open>
  C7. When the image path does not exist, \<open>write_iso_unix\<close> raises
  \<open>SystemExit("ISO file not found: ...")\<close> before it prints or starts anything, and no
  run of \<open>main\<close> asked to write that image starts \<open>dd\<close>, on any platform.
\<close>

theorem write_iso_missing_image:
  assumes "\<not> path_exists E p"
  shows "write_iso_unix E device p = ([], Raised (SysExitMsg (''ISO file not found: '' @ p)))
       \<and> (iso A = Some p \<longrightarrow> ''dd'' \<notin> set (invoked (fst (main E A))))"
proof (intro conjI impI)
  show "write_iso_unix E device p = ([], Raised (SysExitMsg (''ISO file not found: '' @ p)))"
    using assms by (simp add: write_iso_unix_def raise_def)
next
  assume i: "iso A = Some p"
  show "''dd'' \<notin> set (invoked (fst (main E A)))"
    by (rule dd_main) (simp add: iso_step_missing [OF assms i])
qed

theorem write_iso_missing_image_witness:
  "\<not> path_exists linux_env ''missing.iso''
   \<and> write_iso_unix linux_env ''/dev/sdb'' ''missing.iso''
       = ([], Raised (SysExitMsg ''ISO file not found: missing.iso''))
   \<and> iso (full_args\<lparr>iso := Some ''missing.iso''\<rparr>) = Some ''missing.iso''
   \<and> ''dd'' \<notin> set (invoked (fst (main linux_env (full_args\<lparr>iso := Some ''missing.iso''\<rparr>))))"
proof -
  have h: "\<not> path_exists linux_env ''missing.iso''"
    by (simp add: linux_env_def)
  show ?thesis
    using h write_iso_missing_image [OF h, of "''/dev/sdb''" "full_args\<lparr>iso := Some ''missing.iso''\<rparr>"]
    by simp
qed

section \<open>The confirmation gate\<close>

text \<open>
  C2. A run that asks for confirmation (\<open>--yes\<close> not given) and reads an answer that
  is neither the target string nor \<open>YES\<close> starts no subprocess and writes no file, and
  ends with status 1. When the privilege check let the run reach the prompt, the run is
  exactly the confirmation dialogue followed by \<open>sys.exit(1)\<close>, its last output being
  \<open>Confirmation failed. Aborting.\<close>
\<close>

theorem declined_confirmation_aborts:
  assumes "\<not> list_mode A" and "target A = Some t" and "t \<noteq> []"
    and "parttable A = None \<or> parttable A = Some ''gpt'' \<or> parttable A = Some ''mbr''"
    and "\<not> yes A" and "answer E = Some a" and "a \<noteq> t" and "a \<noteq> ''YES''"
  shows "execs (fst (main E A)) = []
       \<and> (\<forall>p s. WriteFile p s \<notin> set (fst (main E A)))
       \<and> status (main E A) = 1
       \<and> (snd (check_root E) = Returned PyNone \<longrightarrow>
            main E A = (fst (confirm E t), Raised (SysExitCode 1))
          \<and> last (fst (main E A)) = Print ''Confirmation failed. Aborting.'')"
proof -
  have c: "snd (confirm E t) = Raised (SysExitCode 1)"
    and l: "last (fst (confirm E t)) = Print ''Confirmation failed. Aborting.''"
    using assms(6-8) by (simp_all add: confirm_def Let_def)
  have m: "main E A = andthen (check_root E) (confirm E t)"
    unfolding main_target [OF assms(1-4)] using assms(5) c by (simp add: andthen_raised)
  show ?thesis
  proof (cases "snd (check_root E)")
    case (Returned v)
    then have v: "v = PyNone"
      by (auto simp: check_root_def ok_def raise_def split: if_splits option.splits)
    have "main E A = (fst (confirm E t), Raised (SysExitCode 1))"
      unfolding m using Returned c by (simp add: andthen_returned)
    then show ?thesis
      using l by (simp add: writefile_notin_confirm)
  next
    case (Raised x)
    then have x: "exit_status x = 1"
      by (auto simp: check_root_def ok_def raise_def split: if_splits option.splits)
    have "main E A = ([], Raised x)"
      unfolding m using Raised by (simp add: andthen_raised prod_eq_iff)
    then show ?thesis
      using x Raised by simp
  qed
qed

theorem declined_confirmation_aborts_witness:
  "execs (fst (main declining_env ask_args)) = []
   \<and> status (main declining_env ask_args) = 1
   \<and> main declining_env ask_args
       = (fst (confirm declining_env ''/dev/sdb''), Raised (SysExitCode 1))"
proof -
  have "snd (check_root declining_env) = Returned PyNone"
    by (simp add: declining_env_def linux_env_def check_root_def ok_def)
  then show ?thesis
    using declined_confirmation_aborts [of ask_args "''/dev/sdb''" declining_env "''no''"]
    by (simp add: declining_env_def linux_env_def ask_args_def full_args_def)
qed

section \<open>The privilege check\<close>

text \<open>
  C8. In target mode \<open>check_root\<close> runs before the prompt and before any command.
  On Linux and Darwin a non-zero effective uid ends the run with nothing done; on Windows
  an \<open>IsUserAnAdmin\<close> that answers 0 does. In every other case \<open>check_root\<close> returns:
  that includes a Windows check that raises (the handler is \<open>except Exception: pass\<close>,
  a best-effort check) and any other platform, where nothing is checked.
\<close>

theorem check_root_refuses:
  assumes "\<not> list_mode A" and "target A = Some t" and "t \<noteq> []"
    and "parttable A = None \<or> parttable A = Some ''gpt'' \<or> parttable A = Some ''mbr''"
  shows "((system E = ''Linux'' \<or> system E = ''Darwin'') \<and> geteuid E \<noteq> 0 \<longrightarrow>
            main E A = ([], Raised (SysExitMsg
              ''This script must be run as root (sudo). Exiting.'')))
       \<and> (system E = ''Windows'' \<and> is_user_an_admin E = Some 0 \<longrightarrow>
            main E A = ([], Raised (SysExitMsg
              ''Please run this script from an elevated Administrator PowerShell. Exiting.'')))
       \<and> (\<not> ((system E = ''Linux'' \<or> system E = ''Darwin'') \<and> geteuid E \<noteq> 0)
          \<and> \<not> (system E = ''Windows'' \<and> is_user_an_admin E = Some 0) \<longrightarrow>
            check_root E = ok)"
  unfolding main_target [OF assms]
  by (auto simp: check_root_def raise_def split: option.splits)

theorem check_root_refuses_witness:
  "main user_env full_args =
     ([], Raised (SysExitMsg ''This script must be run as root (sudo). Exiting.''))"
  using check_root_refuses [of full_args "''/dev/sdb''" user_env]
  by (simp add: full_args_def user_env_def linux_env_def)

text \<open>On Windows, with an administrator check that raises, the run goes on and starts
  \<open>diskpart\<close>.\<close>

theorem windows_admin_check_raises_run_proceeds:
  "system no_admin_check_env = ''Windows''
   \<and> is_user_an_admin no_admin_check_env = None
   \<and> check_root no_admin_check_env = ok
   \<and> execs (fst (main no_admin_check_env windows_args))
       = [[''diskpart'', ''/s'', ''diskpart_script.txt'']]"
  by (simp add: step_defs Let_def no_admin_check_env_def linux_env_def windows_args_def)

section \<open>Partition table creation with sgdisk\<close>

text \<open>
  C4. With \<open>sgdisk\<close> installed and \<open>parted\<close> not, a request for an \<open>mbr\<close> table
  runs \<open>sgdisk --mbrtogpt=1\<close> on the device, a conversion to GPT, and returns normally.
\<close>

theorem mbr_with_sgdisk_runs_mbrtogpt:
  "create_partition_table_unix sgdisk_only_env ''/dev/sdb'' ''mbr''
     = ([Exec [''sgdisk'', ''--mbrtogpt=1'', ''/dev/sdb'']], Returned PyNone)"
  by (simp add: create_partition_table_unix_def try_check_call_def emit_def
      sgdisk_only_env_def linux_env_def)

section \<open>Formatting\<close>

text \<open>
  C5. For a filesystem kind outside \<open>ext4, ext3, ext2, vfat, fat32, ntfs\<close>,
  \<open>format_partition_unix\<close> never starts an mkfs command: the only commands it can start
  are \<open>parted ... mkpart\<close> and \<open>sleep 1\<close>. The kind is looked at after the partition
  has been created: when \<open>parted\<close> is installed and creates the partition on Linux or
  Darwin, the function ends with \<open>SystemExit("Unsupported filesystem: ...")\<close>.
\<close>

theorem unsupported_filesystem_no_mkfs:
  assumes "fs \<noteq> ''ext4''" and "fs \<noteq> ''ext3''" and "fs \<noteq> ''ext2''"
    and "fs \<noteq> ''vfat''" and "fs \<noteq> ''fat32''" and "fs \<noteq> ''ntfs''"
  shows "set (execs (fst (format_partition_unix E d fs)))
           \<subseteq> {[''parted'', ''-s'', d, ''mkpart'', ''primary'', fs, ''0%'', ''100%''],
               [''sleep'', ''1'']}
       \<and> (which E ''parted''
            \<and> run E [''parted'', ''-s'', d, ''mkpart'', ''primary'', fs, ''0%'', ''100%''] = Exit 0
            \<and> (system E = ''Linux'' \<or> system E = ''Darwin'')
            \<and> run E [''sleep'', ''1''] \<noteq> OSErr \<longrightarrow>
          format_partition_unix E d fs =
            ([Exec [''parted'', ''-s'', d, ''mkpart'', ''primary'', fs, ''0%'', ''100%''],
              Exec [''sleep'', ''1'']],
             Raised (SysExitMsg (''Unsupported filesystem: '' @ fs))))"
proof (intro conjI impI)
  have p: "set (execs (fst (format_part E part fs))) \<subseteq> {[''sleep'', ''1'']}" for part
    by (rule execs_format_part_unsupported [OF assms])
  show "set (execs (fst (format_partition_unix E d fs)))
           \<subseteq> {[''parted'', ''-s'', d, ''mkpart'', ''primary'', fs, ''0%'', ''100%''],
               [''sleep'', ''1'']}"
    using p [of "d @ ''1''"] p [of "d @ ''s1''"]
    by (auto simp: format_partition_unix_def Let_def raise_def split: proc.splits)
next
  assume h: "which E ''parted''
            \<and> run E [''parted'', ''-s'', d, ''mkpart'', ''primary'', fs, ''0%'', ''100%''] = Exit 0
            \<and> (system E = ''Linux'' \<or> system E = ''Darwin'')
            \<and> run E [''sleep'', ''1''] \<noteq> OSErr"
  then have "format_part E part fs =
      ([Exec [''sleep'', ''1'']], Raised (SysExitMsg (''Unsupported filesystem: '' @ fs)))" for part
    unfolding format_part_unsupported [OF assms]
    by (cases "run E [''sleep'', ''1'']") (auto simp: call_def emit_def raise_def)
  then show "format_partition_unix E d fs =
            ([Exec [''parted'', ''-s'', d, ''mkpart'', ''primary'', fs, ''0%'', ''100%''],
              Exec [''sleep'', ''1'']],
             Raised (SysExitMsg (''Unsupported filesystem: '' @ fs)))"
    using h by (auto simp: format_partition_unix_def Let_def)
qed

theorem unsupported_filesystem_no_mkfs_witness:
  "set (execs (fst (format_partition_unix linux_env ''/dev/sdb'' ''xfs'')))
     \<subseteq> {[''parted'', ''-s'', ''/dev/sdb'', ''mkpart'', ''primary'', ''xfs'', ''0%'', ''100%''],
         [''sleep'', ''1'']}
   \<and> format_partition_unix linux_env ''/dev/sdb'' ''xfs'' =
       ([Exec [''parted'', ''-s'', ''/dev/sdb'', ''mkpart'', ''primary'', ''xfs'', ''0%'', ''100%''],
         Exec [''sleep'', ''1'']],
        Raised (SysExitMsg ''Unsupported filesystem: xfs''))"
  using unsupported_filesystem_no_mkfs [of "''xfs''" linux_env "''/dev/sdb''"]
  by (simp add: linux_env_def)

text \<open>For \<open>xfs\<close> the partition is created before the kind is rejected.\<close>

theorem unsupported_filesystem_after_mkpart:
  "format_partition_unix linux_env ''/dev/sdb'' ''xfs'' =
     ([Exec [''parted'', ''-s'', ''/dev/sdb'', ''mkpart'', ''primary'', ''xfs'', ''0%'', ''100%''],
       Exec [''sleep'', ''1'']],
      Raised (SysExitMsg ''Unsupported filesystem: xfs''))"
  by (simp add: format_partition_unix_def format_part_def call_def emit_def raise_def
      Let_def linux_env_def)

section \<open>The Windows branch without a format option\<close>

text \<open>
  C6. On Windows, \<open>--parttable gpt\<close> without \<open>--format\<close> writes a diskpart script
  that creates a partition and formats it with \<open>fs=None\<close>, and runs it.
\<close>

theorem windows_format_absent_still_formats:
  "main windows_env windows_args =
     ([Print ''Windows partitioning/formatting path'',
       Print ''Running diskpart script (requires admin)'',
       WriteFile ''diskpart_script.txt''
         (''select disk 1'' @ nl @ ''clean'' @ nl @ ''convert gpt'' @ nl @
          ''create partition primary'' @ nl @ ''format fs=None quick'' @ nl @
          ''assign'' @ nl @ ''exit'' @ nl),
       Exec [''diskpart'', ''/s'', ''diskpart_script.txt''],
       Print ''Done. Remember to safely eject the device.''],
      Returned PyNone)"
  by (simp add: step_defs Let_def windows_env_def linux_env_def windows_args_def)

section \<open>A format option without a partition table option\<close>

text \<open>
  C10. \<open>format_partition_unix\<close> is called only under \<open>if args.parttable:\<close>. With
  \<open>--parttable\<close> absent, a \<open>--format\<close> option changes nothing: the run is the run
  of the same arguments without it, it starts no command but, possibly, \<open>dd\<close>, and no
  message says so. Such a run completes, its last output the completion message, whenever
  the privilege check and the confirmation let it pass and the write step, if there is
  one, returns.
\<close>

theorem format_without_parttable_ignored:
  assumes "parttable A = None"
  shows "main E A = main E (A\<lparr>format := None\<rparr>)
       \<and> (\<not> list_mode A \<longrightarrow> set (invoked (fst (main E A))) \<subseteq> {''dd''})
       \<and> (\<not> list_mode A \<and> target A = Some t \<and> t \<noteq> []
            \<and> snd (check_root E) = Returned PyNone
            \<and> (yes A \<or> snd (confirm E t) = Returned PyNone)
            \<and> snd (iso_step E t A) = Returned PyNone \<longrightarrow>
          snd (main E A) = Returned PyNone \<and> last (fst (main E A)) = Print done_msg)"
proof (intro conjI impI)
  show "main E A = main E (A\<lparr>format := None\<rparr>)"
    using assms by (simp add: main_def parttable_step_none iso_step_format)
next
  assume "\<not> list_mode A"
  then show "set (invoked (fst (main E A))) \<subseteq> {''dd''}"
    by (rule invoked_main_no_parttable [OF assms])
next
  assume h: "\<not> list_mode A \<and> target A = Some t \<and> t \<noteq> []
            \<and> snd (check_root E) = Returned PyNone
            \<and> (yes A \<or> snd (confirm E t) = Returned PyNone)
            \<and> snd (iso_step E t A) = Returned PyNone"
  then have m: "main E A =
     andthen (check_root E)
    (andthen (if \<not> yes A then confirm E t else ok)
    (andthen (parttable_step E t A)
    (andthen (iso_step E t A) (emit (Print done_msg)))))"
    using assms by (intro main_target) simp_all
  have c: "snd (if \<not> yes A then confirm E t else ok) = Returned PyNone"
    using h by (auto simp: ok_def)
  show "snd (main E A) = Returned PyNone"
    unfolding m using h c
    by (simp add: andthen_returned parttable_step_none [OF assms] emit_def)
  show "last (fst (main E A)) = Print done_msg"
    unfolding m using h c
    by (simp add: andthen_returned parttable_step_none [OF assms] emit_def)
qed

theorem format_without_parttable_ignored_witness:
  "main linux_env format_only_args = main linux_env (format_only_args\<lparr>format := None\<rparr>)
   \<and> set (invoked (fst (main linux_env format_only_args))) \<subseteq> {''dd''}
   \<and> snd (main linux_env format_only_args) = Returned PyNone
   \<and> last (fst (main linux_env format_only_args)) = Print done_msg"
proof -
  have p: "parttable format_only_args = None"
    and a: "\<not> list_mode format_only_args" "target format_only_args = Some ''/dev/sdb''"
      "yes format_only_args"
    by (simp_all add: format_only_args_def)
  have c: "snd (check_root linux_env) = Returned PyNone"
    by (simp add: check_root_def linux_env_def ok_def)
  have i: "snd (iso_step linux_env ''/dev/sdb'' format_only_args) = Returned PyNone"
    by (simp add: iso_step_def format_only_args_def ok_def)
  show ?thesis
    using format_without_parttable_ignored [OF p, of linux_env "''/dev/sdb''"] a c i
    by auto
qed

section \<open>Steps that end the run, and delegates that fail\<close>







end
